theory Spec2Isabelle
  imports Complex_Main "HOL-Library.AList"
begin

section \<open>Python exceptions\<close>

text \<open>
  The exceptions that the two source files raise, catch or let through.
  \<open>KeyboardInterrupt\<close> and \<open>SystemExit\<close> are the \<open>BaseException\<close>s
  that an \<open>except Exception\<close> clause does not catch.
\<close>

datatype exc =
    RuntimeError
  | ConnectionError
  | ValueError
  | KeyError
  | IndexError
  | AttributeError
  | FileNotFoundError
  | RequestException
  | GenericException
  | KeyboardInterrupt
  | SystemExit

definition is_RuntimeError :: "exc \<Rightarrow> bool" where
  "is_RuntimeError e = (e = RuntimeError)"

definition is_Exception :: "exc \<Rightarrow> bool" where
  "is_Exception e = (e \<noteq> KeyboardInterrupt \<and> e \<noteq> SystemExit)"

section \<open>\<open>ByBitData.get_data\<close> (bybit\_data.py, lines 18-42)\<close>

text \<open>
  The query parameters that make up the URL of one kline request.
\<close>

record kline_query =
  symbol :: string
  interval :: int
  start :: "int option"
  end_ms :: "int option"
  limit :: int

text \<open>
  What \<open>requests.get\<close> hands back: a status code and, when the body decodes and
  has the keys \<open>result\<close> and \<open>list\<close>, the rows found there.
\<close>

record 'r http_response =
  status_code :: int
  json_result_list :: "'r option"

text \<open>
  The network as \<open>get_data\<close> sees it: the answer to the \<open>n\<close>-th call of
  \<open>requests.get\<close> (counted from 0) for a given query, or the exception that the
  call itself raises.
\<close>

type_synonym 'r network = "kline_query \<Rightarrow> nat \<Rightarrow> exc + 'r http_response"

record net_state =
  calls :: nat
  slept :: "int list"

text \<open>
  \<open>get_data\<close>. The call of \<open>requests.get\<close> is outside the \<open>try\<close>, so an
  exception of the call itself propagates at once. Inside the \<open>try\<close>, a status other
  than 200 and a body without the rows both end in the \<open>except Exception\<close> branch.
  There, with \<open>retries < 5\<close>, the function sleeps (\<open>time.sleep\<close> raises
  \<open>ValueError\<close> on a negative length), increments \<open>retries\<close> and calls itself
  with five positional arguments, so that \<open>limit\<close> is back to its default 1000; the
  value of the recursive call is dropped and the function falls off its end, returning
  Python's \<open>None\<close> (here \<open>Inr None\<close>). An exception of the recursive call
  propagates, since the call is in the handler and not in the \<open>try\<close>.
\<close>

function get_data ::
  "'r network \<Rightarrow> kline_query \<Rightarrow> int \<Rightarrow> net_state \<Rightarrow> (exc + 'r option) \<times> net_state"
where
  "get_data net q retries s =
     (let s1 = s\<lparr>calls := Suc (calls s)\<rparr> in
      case net q (calls s) of
        Inl e \<Rightarrow> (Inl e, s1)
      | Inr response \<Rightarrow>
          if status_code response = 200 \<and> json_result_list response \<noteq> None
          then (Inr (json_result_list response), s1)
          else if retries < 5 then
            (if retries < 0 then (Inl ValueError, s1)
             else
               (case get_data net (q\<lparr>limit := 1000\<rparr>) (retries + 1)
                       (s1\<lparr>slept := slept s1 @ [retries]\<rparr>) of
                  (Inl e, s2) \<Rightarrow> (Inl e, s2)
                | (Inr ignored, s2) \<Rightarrow> (Inr None, s2)))
          else (Inl ConnectionError, s1))"
  by pat_completeness auto
termination
  by (relation "measure (\<lambda>(net, q, retries, s). nat (5 - retries))") auto


section \<open>Data of the validator (validator.py)\<close>

text \<open>
  Floating-point samples, scores and weights are abstracted to \<open>real\<close>: nothing below
  depends on rounding. A Python \<open>dict\<close> is an association list in insertion order,
  written with \<open>AList.update\<close> (replace in place, else append) and read with
  \<open>map_of\<close>.
\<close>

type_synonym column = "real list"
type_synonym data_structure = "column list"
type_synonym score_dict = "(string \<times> real) list"

record base_request =
  stream_type :: string
  topic_id :: int
  feature_ids :: "int list"
  schema_id :: int
  prediction_size :: int

record client_request = base_request +
  client_uuid :: "string option"

record prediction_data_file =
  df_client_uuid :: string
  df_stream_type :: string
  df_stream_id :: int
  df_topic_id :: int
  df_request_uuid :: string
  df_miner_uid :: string
  df_start :: int
  df_end :: int
  df_vmins :: "real list"
  df_vmaxs :: "real list"
  df_decimal_places :: "int list"
  df_predictions :: "real list"

record prediction_request =
  df :: prediction_data_file
  files :: "string list"
  predictions :: "(string \<times> real list) list"

datatype vali_request =
    TrainingRequest base_request
  | ClientRequest client_request
  | PredictionRequest prediction_request

text \<open>The four protocol messages, with the keyword arguments the validator gives them.\<close>

datatype message =
    TrainingForward (msg_request_uuid: string) (msg_stream_id: int)
      (msg_fwd_samples: data_structure) (msg_topic_id: int) (msg_feature_ids: "int list")
      (msg_schema_id: int) (msg_prediction_size: int)
  | TrainingBackward (msg_request_uuid: string) (msg_stream_id: int)
      (msg_samples: column) (msg_topic_id: int)
  | LiveForward (msg_request_uuid: string) (msg_stream_id: int)
      (msg_fwd_samples: data_structure) (msg_topic_id: int) (msg_feature_ids: "int list")
      (msg_schema_id: int) (msg_prediction_size: int)
  | LiveBackward (msg_request_uuid: string) (msg_stream_id: int)
      (msg_samples: column) (msg_topic_id: int)

subsection \<open>The ledger (CMW)\<close>

text \<open>
  Modelled from the spec: the classes \<open>CMWMiner\<close>, \<open>CMWStreamType\<close>,
  \<open>CMWClient\<close> and the ledger object of \<open>vali_objects.cmw\<close> are not among the
  sources. The spec (sections 3 and 4.6) gives the ledger as a mapping client \<open>\<rightarrow>\<close> stream
  (by stream id) \<open>\<rightarrow>\<close> miner (by id) \<open>\<rightarrow>\<close> score history, win count and win value total,
  with entries created on first reference. \<open>CMWMiner(miner_uid, 0, 0, [])\<close> is
  \<open>new_miner\<close>.
\<close>

record cmw_miner =
  miner_id :: string
  win_count :: int
  win_value_total :: real
  score_history :: "real list"

record cmw_stream =
  cmw_topic_id :: int
  miners :: "(string \<times> cmw_miner) list"

type_synonym cmw_client = "(int \<times> cmw_stream) list"
type_synonym cmw = "(string \<times> cmw_client) list"

definition new_miner :: "string \<Rightarrow> cmw_miner" where
  "new_miner miner_uid =
     \<lparr>miner_id = miner_uid, win_count = 0, win_value_total = 0, score_history = []\<rparr>"

definition add_score :: "real \<Rightarrow> cmw_miner \<Rightarrow> cmw_miner" where
  "add_score score m = m\<lparr>score_history := score_history m @ [score]\<rparr>"

definition add_win_value :: "real \<Rightarrow> cmw_miner \<Rightarrow> cmw_miner" where
  "add_win_value v m = m\<lparr>win_value_total := win_value_total m + v\<rparr>"

definition add_win :: "cmw_miner \<Rightarrow> cmw_miner" where
  "add_win m = m\<lparr>win_count := win_count m + 1\<rparr>"

definition get_client :: "cmw \<Rightarrow> string \<Rightarrow> cmw_client option" where
  "get_client vm uuid = map_of vm uuid"

definition get_stream :: "cmw_client \<Rightarrow> int \<Rightarrow> cmw_stream option" where
  "get_stream client sid = map_of client sid"

definition get_miner :: "cmw_stream \<Rightarrow> string \<Rightarrow> cmw_miner option" where
  "get_miner strm miner_uid = map_of (miners strm) miner_uid"

definition new_stream :: "int \<Rightarrow> cmw_stream" where
  "new_stream topic = \<lparr>cmw_topic_id = topic, miners = []\<rparr>"

text \<open>
  The stream object that the grading loop mutates is the one inside the ledger object
  \<open>vm\<close>; \<open>put_stream\<close> writes the mutated stream back to its place.
\<close>

definition put_stream :: "cmw \<Rightarrow> string \<Rightarrow> int \<Rightarrow> cmw_stream \<Rightarrow> cmw" where
  "put_stream vm uuid sid strm =
     (case map_of vm uuid of
        None \<Rightarrow> vm
      | Some client \<Rightarrow> AList.update uuid (AList.update sid strm client) vm)"

section \<open>The world and the collaborators\<close>

text \<open>
  Everything the validator changes outside its own variables: the messages handed to
  \<open>dendrite.query\<close>, the persisted ledger, the store of prediction records (each
  under the id it was saved with), the paths present in the predictions directory, the
  calls of \<open>subtensor.set_weights\<close>, and the exceptions
  passed to \<open>bt.logging.error\<close>. \<open>clock\<close> counts the calls of collaborators whose
  answer may change from call to call.
\<close>

record world =
  clock :: nat
  sent :: "message list"
  ledger :: cmw
  saved :: "(string \<times> prediction_data_file) list"
  disk :: "string list"
  committed :: "(int \<times> int list \<times> real list) list"
  logged :: "exc list"

text \<open>
  The collaborators whose code is not among the sources are parameters. Those that may
  raise return a sum; those whose answer may differ between calls take the clock.
  \<open>fetch\<close> is \<open>BinanceData.get_data_and_structure_data_points\<close>, which fills the
  data structure it is given: it returns the filled structure. \<open>persist_fault\<close> says
  whether \<open>ValiUtils.set_vali_memory_and_bkp\<close> raises.
\<close>

record env =
  hotkey_address :: string
  axons :: "string list"
  hotkeys :: "string list"
  uids :: "int list"
  netuid :: int
  test_only_historical :: int
  STANDARD_TF :: int
  uuid4 :: "nat \<Rightarrow> string"
  hash :: "string \<Rightarrow> int"
  randomize_days :: "bool \<Rightarrow> nat \<Rightarrow> int \<times> int \<times> (int \<times> int) list"
  timestamp_to_millis :: "int \<Rightarrow> int"
  minute_in_millis :: "int \<Rightarrow> int"
  get_standardized_ds :: data_structure
  fetch :: "string \<Rightarrow> data_structure \<Rightarrow> int \<times> int \<Rightarrow> nat \<Rightarrow> exc + data_structure"
  scale_data_structure ::
    "data_structure \<Rightarrow> exc + (real list \<times> real list \<times> int list \<times> data_structure)"
  scale_values :: "column \<Rightarrow> real \<Rightarrow> real \<Rightarrow> exc + (real \<times> real \<times> column)"
  query :: "message \<Rightarrow> nat \<Rightarrow> exc + column option list"
  score_response :: "column \<Rightarrow> column \<Rightarrow> exc + real"
  simple_scale_scores :: "score_dict \<Rightarrow> exc + score_dict"
  weigh_miner_scores :: "score_dict \<Rightarrow> exc + score_dict"
  persist_fault :: "cmw \<Rightarrow> nat \<Rightarrow> exc option"
  set_weights :: "int \<Rightarrow> int list \<Rightarrow> real list \<Rightarrow> nat \<Rightarrow> exc option"

subsection \<open>Running with exceptions\<close>

type_synonym 'a run = "world \<Rightarrow> (exc + 'a) \<times> world"

definition ret :: "'a \<Rightarrow> 'a run" where
  "ret x = (\<lambda>w. (Inr x, w))"

definition raise :: "exc \<Rightarrow> 'a run" where
  "raise e = (\<lambda>w. (Inl e, w))"

definition lift :: "exc + 'a \<Rightarrow> 'a run" where
  "lift r = (\<lambda>w. (r, w))"

definition and_then :: "'a run \<Rightarrow> ('a \<Rightarrow> 'b run) \<Rightarrow> 'b run" where
  "and_then m f =
     (\<lambda>w. case m w of (Inl e, w') \<Rightarrow> (Inl e, w') | (Inr x, w') \<Rightarrow> f x w')"

text \<open>
  \<open>try: body  except C as e: handler\<close>: an exception of the body that the clause
  matches runs the handler, any other propagates.
\<close>

definition try_except :: "'a run \<Rightarrow> (exc \<Rightarrow> bool) \<Rightarrow> (exc \<Rightarrow> 'a run) \<Rightarrow> 'a run" where
  "try_except body catches handler =
     (\<lambda>w. case body w of
        (Inl e, w') \<Rightarrow> if catches e then handler e w' else (Inl e, w')
      | (Inr x, w') \<Rightarrow> (Inr x, w'))"

text \<open>
  \<open>try: body  except C as e: handler  else: orelse\<close>: the \<open>else\<close> suite runs only
  when the body raised nothing, and its own exceptions are not caught by the clause.
\<close>

definition try_except_else ::
  "'a run \<Rightarrow> (exc \<Rightarrow> bool) \<Rightarrow> (exc \<Rightarrow> unit run) \<Rightarrow> unit run \<Rightarrow> unit run" where
  "try_except_else body catches handler orelse =
     (\<lambda>w. case body w of
        (Inl e, w') \<Rightarrow> if catches e then handler e w' else (Inl e, w')
      | (Inr x, w') \<Rightarrow> orelse w')"

definition tick :: "nat run" where
  "tick = (\<lambda>w. (Inr (clock w), w\<lparr>clock := Suc (clock w)\<rparr>))"

definition log_error :: "exc \<Rightarrow> unit run" where
  "log_error e = (\<lambda>w. (Inr (), w\<lparr>logged := logged w @ [e]\<rparr>))"

definition index0 :: "'a list \<Rightarrow> 'a run" where
  "index0 xs = (case xs of [] \<Rightarrow> raise IndexError | x # rest \<Rightarrow> ret x)"

definition dendrite_query :: "env \<Rightarrow> message \<Rightarrow> column option list run" where
  "dendrite_query env proto =
     and_then tick (\<lambda>n w. (query env proto n, w\<lparr>sent := sent w @ [proto]\<rparr>))"

text \<open>
  Modelled from the spec: \<open>ValiUtils.get_vali_records\<close> and
  \<open>ValiUtils.set_vali_memory_and_bkp\<close> with \<open>CMWUtil.dump_cmw\<close> are not among
  the sources. By sections 3 and 4.6 of the spec the whole ledger is read, changed in
  memory and written back as one unit, and a write may fail (section 7). Reading gives a
  copy of the persisted ledger; writing replaces it unless the collaborator raises.
\<close>

definition get_vali_records :: "cmw run" where
  "get_vali_records = (\<lambda>w. (Inr (ledger w), w))"

definition set_vali_memory_and_bkp :: "env \<Rightarrow> cmw \<Rightarrow> unit run" where
  "set_vali_memory_and_bkp env vm =
     and_then tick (\<lambda>n w.
       case persist_fault env vm n of
         Some e \<Rightarrow> (Inl e, w)
       | None \<Rightarrow> (Inr (), w\<lparr>ledger := vm\<rparr>))"

text \<open>
  Modelled from the spec: \<open>ValiUtils.save_predictions_request\<close> is not among the
  sources. By section 6 of the spec the durable store holds PredictionRecord blobs keyed
  by request id, with list, read, write and delete; the id the validator hands over is
  its first argument, the uuid drawn at line 271 "for file name". A write under an id
  that the store already holds replaces the record there.
\<close>

definition save_predictions_request :: "string \<Rightarrow> prediction_data_file \<Rightarrow> unit run" where
  "save_predictions_request output_uuid pdf =
     (\<lambda>w. (Inr (), w\<lparr>saved := AList.update output_uuid pdf (saved w)\<rparr>))"

text \<open>\<open>os.remove\<close> raises \<open>FileNotFoundError\<close> when the path does not exist.\<close>

definition os_remove :: "string \<Rightarrow> unit run" where
  "os_remove file =
     (\<lambda>w. if file \<in> set (disk w) then (Inr (), w\<lparr>disk := removeAll file (disk w)\<rparr>)
          else (Inl FileNotFoundError, w))"


section \<open>\<open>run_time_series_validation\<close> (validator.py, lines 73-409)\<close>

subsection \<open>Shared steps\<close>

text \<open>
  \<open>for ts_range in ts_ranges: BinanceData.get_data_and_structure_data_points(...)\<close>
  (lines 129-132 and 216-219).
\<close>

fun fetch_ranges :: "env \<Rightarrow> string \<Rightarrow> (int \<times> int) list \<Rightarrow> data_structure \<Rightarrow> data_structure run" where
  "fetch_ranges env st [] ds = ret ds"
| "fetch_ranges env st (ts_range # rest) ds =
     and_then tick (\<lambda>n.
     and_then (lift (fetch env st ds ts_range n)) (\<lambda>ds'.
     fetch_ranges env st rest ds'))"

text \<open>
  \<open>resp_i is not None and len(resp_i.numpy()) == vali_request.prediction_size\<close>
  (lines 158, 264 and 274).
\<close>

definition proper_response :: "column option \<Rightarrow> int \<Rightarrow> bool" where
  "proper_response resp_i psize =
     (case resp_i of None \<Rightarrow> False | Some v \<Rightarrow> int (length v) = psize)"

subsection \<open>TrainingRequest (lines 121-199)\<close>

text \<open>
  The fetches of the training window and the scaling are before the \<open>try\<close>; the
  query, the fetch of the results and the backward message are inside it, under
  \<open>except RuntimeError\<close>. The debug loop over the responses only logs.
\<close>

definition process_training :: "env \<Rightarrow> base_request \<Rightarrow> string \<Rightarrow> unit run" where
  "process_training env vali_request request_uuid =
     (let stream_id = hash env (stream_type vali_request @ hotkey_address env) in
      and_then tick (\<lambda>n.
      case randomize_days env True n of (start_dt, end_dt, ts_ranges) \<Rightarrow>
      and_then (fetch_ranges env (stream_type vali_request) ts_ranges (get_standardized_ds env)) (\<lambda>ds.
      and_then (lift (scale_data_structure env ds)) (\<lambda>(vmins, vmaxs, dps, sds).
      let training_proto =
            TrainingForward request_uuid stream_id sds (topic_id vali_request)
              (feature_ids vali_request) (schema_id vali_request) (prediction_size vali_request)
      in
      try_except
        (and_then (dendrite_query env training_proto) (\<lambda>responses.
         let training_results_start = timestamp_to_millis env end_dt;
             training_results_end = timestamp_to_millis env end_dt
               + minute_in_millis env (prediction_size vali_request * STANDARD_TF env)
         in
         and_then tick (\<lambda>n.
         and_then (lift (fetch env (stream_type vali_request) (get_standardized_ds env)
                      (training_results_start, training_results_end) n)) (\<lambda>results_ds.
         and_then (index0 results_ds) (\<lambda>results0.
         and_then (index0 vmins) (\<lambda>vmin.
         and_then (index0 vmaxs) (\<lambda>vmax.
         and_then (lift (scale_values env results0 vmin vmax)) (\<lambda>(results_vmin, results_vmax, results_scaled).
         let training_backprop_proto =
               TrainingBackward request_uuid stream_id results_scaled (topic_id vali_request)
         in
         and_then (dendrite_query env training_backprop_proto) (\<lambda>ignored. ret ())))))))))
        is_RuntimeError log_error))))"

subsection \<open>ClientRequest (lines 201-299)\<close>

text \<open>
  Lines 235-250: the client and its stream are entered in the ledger when absent, and the
  ledger is written back, all under \<open>except Exception\<close>.
\<close>

definition register_client :: "env \<Rightarrow> string \<Rightarrow> int \<Rightarrow> int \<Rightarrow> unit run" where
  "register_client env cu stream_id topic =
     try_except
       (and_then get_vali_records (\<lambda>vm.
        let vm' =
          (case get_client vm cu of
             None \<Rightarrow> vm @ [(cu, [(stream_id, new_stream topic)])]
           | Some client \<Rightarrow>
               (case get_stream client stream_id of
                  None \<Rightarrow> AList.update cu (client @ [(stream_id, new_stream topic)]) vm
                | Some client_stream_type \<Rightarrow> vm))
        in set_vali_memory_and_bkp env vm'))
       is_Exception log_error"

text \<open>
  Lines 273-293: \<open>for i, resp_i in enumerate(responses)\<close>. \<open>mk\<close> builds the
  \<open>PredictionDataFile\<close> from the responder's hotkey and its predictions;
  \<open>metagraph.axons[i]\<close> raises \<open>IndexError\<close> out of range.
\<close>

fun store_predictions ::
  "env \<Rightarrow> (string \<Rightarrow> column \<Rightarrow> prediction_data_file) \<Rightarrow> int \<Rightarrow> string \<Rightarrow> nat \<Rightarrow>
   column option list \<Rightarrow> unit run" where
  "store_predictions env mk psize output_uuid i [] = ret ()"
| "store_predictions env mk psize output_uuid i (resp_i # rest) =
     and_then
       (if proper_response resp_i psize then
          (case resp_i of
             None \<Rightarrow> ret ()
           | Some preds \<Rightarrow>
               if i < length (axons env)
               then save_predictions_request output_uuid (mk (axons env ! i) preds)
               else raise IndexError)
        else ret ())
       (\<lambda>ignored. store_predictions env mk psize output_uuid (Suc i) rest)"

definition make_pdf ::
  "env \<Rightarrow> client_request \<Rightarrow> string \<Rightarrow> int \<Rightarrow> string \<Rightarrow> int \<Rightarrow> real list \<Rightarrow> real list \<Rightarrow>
   int list \<Rightarrow> string \<Rightarrow> column \<Rightarrow> prediction_data_file" where
  "make_pdf env vali_request cu stream_id request_uuid end_dt vmins vmaxs dps miner preds =
     \<lparr>df_client_uuid = cu,
      df_stream_type = stream_type vali_request,
      df_stream_id = stream_id,
      df_topic_id = topic_id vali_request,
      df_request_uuid = request_uuid,
      df_miner_uid = miner,
      df_start = timestamp_to_millis env end_dt,
      df_end = timestamp_to_millis env end_dt
        + minute_in_millis env (prediction_size vali_request * STANDARD_TF env),
      df_vmins = vmins,
      df_vmaxs = vmaxs,
      df_decimal_places = dps,
      df_predictions = preds\<rparr>"

definition process_client :: "env \<Rightarrow> client_request \<Rightarrow> string \<Rightarrow> unit run" where
  "process_client env vali_request request_uuid =
     (let stream_id = hash env (stream_type vali_request @ hotkey_address env);
          cu = (case client_uuid vali_request of None \<Rightarrow> hotkey_address env | Some u \<Rightarrow> u)
      in
      and_then tick (\<lambda>n.
      case randomize_days env (test_only_historical env = 1) n of (start_dt, end_dt, ts_ranges) \<Rightarrow>
      and_then (fetch_ranges env (stream_type vali_request) ts_ranges (get_standardized_ds env)) (\<lambda>ds.
      and_then (lift (scale_data_structure env ds)) (\<lambda>(vmins, vmaxs, dps, sds).
      let live_proto =
            LiveForward request_uuid stream_id sds (topic_id vali_request)
              (feature_ids vali_request) (schema_id vali_request) (prediction_size vali_request)
      in
      and_then (register_client env cu stream_id (topic_id vali_request)) (\<lambda>ignored.
      try_except
        (and_then (dendrite_query env live_proto) (\<lambda>responses.
         and_then tick (\<lambda>n.
         let output_uuid = uuid4 env n in
         store_predictions env
           (make_pdf env vali_request cu stream_id request_uuid end_dt vmins vmaxs dps)
           (prediction_size vali_request) output_uuid 0 responses)))
        is_RuntimeError log_error)))))"


subsection \<open>PredictionRequest (lines 301-409)\<close>

text \<open>
  Lines 340-342: every miner's predictions are scored against \<open>data_structure[0]\<close>.
\<close>

fun score_predictions ::
  "env \<Rightarrow> (string \<times> column) list \<Rightarrow> data_structure \<Rightarrow> score_dict \<Rightarrow> score_dict run" where
  "score_predictions env [] data_structure scores = ret scores"
| "score_predictions env ((miner_uid, miner_preds) # rest) data_structure scores =
     and_then (index0 data_structure) (\<lambda>truth.
     and_then (lift (score_response env miner_preds truth)) (\<lambda>score.
     score_predictions env rest data_structure (AList.update miner_uid score scores)))"

text \<open>
  Lines 366-378, the loop over \<open>scaled_scores.items()\<close>. \<open>stream_type\<close> is
  \<open>None\<close> when the client has no such stream, and \<open>stream_type.get_miner\<close> then
  raises \<open>AttributeError\<close>. The score is appended before the subscript
  \<open>weighed_winning_scores_dict[miner_uid]\<close>, which raises \<open>KeyError\<close> for a miner
  that is not a key. The loop works on objects in memory: when it raises, what it has
  changed so far is not written anywhere.
\<close>

fun add_results ::
  "score_dict \<Rightarrow> score_dict \<Rightarrow> cmw_stream option \<Rightarrow> exc + cmw_stream option" where
  "add_results [] weighed_winning_scores_dict strm = Inr strm"
| "add_results ((miner_uid, scaled_score) # rest) weighed_winning_scores_dict strm =
     (case strm of
        None \<Rightarrow> Inl AttributeError
      | Some s \<Rightarrow>
          let stream_miner =
                (case get_miner s miner_uid of None \<Rightarrow> new_miner miner_uid | Some m \<Rightarrow> m);
              stream_miner = add_score scaled_score stream_miner
          in
          case map_of weighed_winning_scores_dict miner_uid of
            None \<Rightarrow> Inl KeyError
          | Some win_value \<Rightarrow>
              let stream_miner =
                    (if win_value \<noteq> 0 then add_win (add_win_value win_value stream_miner)
                     else stream_miner)
              in add_results rest weighed_winning_scores_dict
                   (Some (s\<lparr>miners := AList.update miner_uid stream_miner (miners s)\<rparr>)))"

text \<open>Lines 364-383: the loop, then the write of the whole ledger, under \<open>except Exception\<close>.\<close>

definition update_ledger ::
  "env \<Rightarrow> cmw \<Rightarrow> prediction_data_file \<Rightarrow> cmw_stream option \<Rightarrow> score_dict \<Rightarrow> score_dict \<Rightarrow>
   unit run" where
  "update_ledger env vm request_df strm scaled_scores weighed_winning_scores_dict =
     try_except
       (and_then (lift (add_results scaled_scores weighed_winning_scores_dict strm)) (\<lambda>strm'.
        set_vali_memory_and_bkp env
          (case strm' of
             None \<Rightarrow> vm
           | Some s \<Rightarrow> put_stream vm (df_client_uuid request_df) (df_stream_id request_df) s)))
       is_Exception log_error"

text \<open>\<open>list.index\<close> raises \<open>ValueError\<close> when the element is absent.\<close>

fun list_index :: "'a list \<Rightarrow> 'a \<Rightarrow> nat option" where
  "list_index [] x = None"
| "list_index (y # ys) x =
     (if y = x then Some 0 else (case list_index ys x of None \<Rightarrow> None | Some i \<Rightarrow> Some (Suc i)))"

text \<open>Line 389: \<open>metagraph.uids[metagraph.hotkeys.index(miner_hotkey[0])]\<close> for each winner.\<close>

fun convert_uids :: "env \<Rightarrow> score_dict \<Rightarrow> exc + int list" where
  "convert_uids env [] = Inr []"
| "convert_uids env (miner_hotkey # rest) =
     (case list_index (hotkeys env) (fst miner_hotkey) of
        None \<Rightarrow> Inl ValueError
      | Some i \<Rightarrow>
          if i < length (uids env)
          then (case convert_uids env rest of
                  Inl e \<Rightarrow> Inl e
                | Inr converted \<Rightarrow> Inr (uids env ! i # converted))
          else Inl IndexError)"

definition subtensor_set_weights :: "env \<Rightarrow> int list \<Rightarrow> real list \<Rightarrow> unit run" where
  "subtensor_set_weights env converted_uids weights =
     and_then tick (\<lambda>n w.
       case set_weights env (netuid env) converted_uids weights n of
         Some e \<Rightarrow> (Inl e, w)
       | None \<Rightarrow> (Inr (), w\<lparr>committed := committed w @ [(netuid env, converted_uids, weights)]\<rparr>))"

text \<open>
  Lines 307-336: the ledger is read, the results of the window are fetched, their first
  column is rescaled with the bounds of the record, and the rescaled column goes to the
  miners in a \<open>LiveBackward\<close> that carries the \<open>request_uuid\<close> of this iteration of
  the loop. The step hands on the ledger object and the data structure as fetched.
\<close>

definition send_results ::
  "env \<Rightarrow> prediction_request \<Rightarrow> string \<Rightarrow> (cmw \<times> data_structure) run" where
  "send_results env vali_request request_uuid =
     (let request_df = df vali_request;
          stream_id = hash env (df_stream_type request_df @ hotkey_address env)
      in
      and_then get_vali_records (\<lambda>vm.
      and_then tick (\<lambda>n.
      and_then (lift (fetch env (df_stream_type request_df) (get_standardized_ds env)
                   (df_start request_df, df_end request_df) n)) (\<lambda>data_structure.
      and_then (index0 data_structure) (\<lambda>results0.
      and_then (index0 (df_vmins request_df)) (\<lambda>vmin.
      and_then (index0 (df_vmaxs request_df)) (\<lambda>vmax.
      and_then (lift (scale_values env results0 vmin vmax)) (\<lambda>(results_vmin, results_vmax, results_scaled).
      let results_backprop_proto =
            LiveBackward request_uuid stream_id results_scaled (df_topic_id request_df)
      in
      and_then (dendrite_query env results_backprop_proto) (\<lambda>ignored.
      ret (vm, data_structure))))))))))"

text \<open>
  Lines 346-400: scaling of the scores, the ten best, their weights, the ledger update
  and the commitment of the weights.
\<close>

definition weigh_and_commit ::
  "env \<Rightarrow> prediction_request \<Rightarrow> cmw \<Rightarrow> score_dict \<Rightarrow> unit run" where
  "weigh_and_commit env vali_request vm scores =
     (let request_df = df vali_request in
      and_then (lift (simple_scale_scores env scores)) (\<lambda>scaled_scores.
      and_then
        (case get_client vm (df_client_uuid request_df) of
           None \<Rightarrow> raise AttributeError
         | Some client \<Rightarrow> ret (get_stream client (df_stream_id request_df))) (\<lambda>strm.
      let sorted_scores = sort_key (\<lambda>x. - snd x) scaled_scores;
          winning_scores = take 10 sorted_scores
      in
      and_then (lift (weigh_miner_scores env winning_scores)) (\<lambda>weighed_scores.
      let weighed_winning_scores = take 10 weighed_scores;
          weighed_winning_scores_dict =
            fold (\<lambda>score. AList.update (fst score) (snd score)) weighed_winning_scores []
      in
      and_then (update_ledger env vm request_df strm scaled_scores weighed_winning_scores_dict)
        (\<lambda>ignored.
      let weights = map snd weighed_winning_scores in
      and_then (lift (convert_uids env weighed_winning_scores)) (\<lambda>converted_uids.
      subtensor_set_weights env converted_uids weights))))))"

text \<open>Lines 340-400: the scores of lines 340-342, then the rest.\<close>

definition score_and_weigh ::
  "env \<Rightarrow> prediction_request \<Rightarrow> cmw \<Rightarrow> data_structure \<Rightarrow> unit run" where
  "score_and_weigh env vali_request vm data_structure =
     and_then (score_predictions env (predictions vali_request) data_structure [])
       (weigh_and_commit env vali_request vm)"

definition grade :: "env \<Rightarrow> prediction_request \<Rightarrow> string \<Rightarrow> unit run" where
  "grade env vali_request request_uuid =
     and_then (send_results env vali_request request_uuid) (\<lambda>(vm, data_structure).
     score_and_weigh env vali_request vm data_structure)"

text \<open>Lines 408-409: \<open>for file in vali_request.files: os.remove(file)\<close>.\<close>

fun remove_files :: "string list \<Rightarrow> unit run" where
  "remove_files [] = ret ()"
| "remove_files (file # rest) = and_then (os_remove file) (\<lambda>ignored. remove_files rest)"

text \<open>
  Lines 306-409: the grading is the body of a \<open>try\<close> with \<open>except RuntimeError\<close>
  and an \<open>else\<close> suite that removes the files.
\<close>

definition process_prediction :: "env \<Rightarrow> prediction_request \<Rightarrow> string \<Rightarrow> unit run" where
  "process_prediction env vali_request request_uuid =
     try_except_else (grade env vali_request request_uuid) is_RuntimeError log_error
       (remove_files (files vali_request))"

subsection \<open>The loop over the requests (lines 117-409) and the function\<close>

definition process_request :: "env \<Rightarrow> vali_request \<Rightarrow> string \<Rightarrow> unit run" where
  "process_request env vali_request request_uuid =
     (case vali_request of
        TrainingRequest r \<Rightarrow> process_training env r request_uuid
      | ClientRequest r \<Rightarrow> process_client env r request_uuid
      | PredictionRequest r \<Rightarrow> process_prediction env r request_uuid)"

fun process_requests :: "env \<Rightarrow> vali_request list \<Rightarrow> unit run" where
  "process_requests env [] = ret ()"
| "process_requests env (vali_request # rest) =
     and_then tick (\<lambda>n.
     let request_uuid = uuid4 env n in
     and_then (process_request env vali_request request_uuid) (\<lambda>ignored.
     process_requests env rest))"

text \<open>Lines 104-106: a validator whose hotkey is not registered calls \<open>exit()\<close>.\<close>

definition run_time_series_validation :: "env \<Rightarrow> vali_request list \<Rightarrow> unit run" where
  "run_time_series_validation env vali_requests =
     (if hotkey_address env \<in> set (hotkeys env)
      then process_requests env vali_requests
      else raise SystemExit)"

section \<open>The scheduler (validator.py, lines 413-433)\<close>

text \<open>
  One pass of the \<open>while True\<close> loop. \<open>second\<close> is \<open>current_time.second\<close>,
  \<open>all_files\<close> the listing of the predictions directory, \<open>ready\<close> the value of
  \<open>ValiUtils.get_predictions_to_complete()\<close>, \<open>dice\<close> the value of
  \<open>random.randint(0, 10)\<close>, and the two standard requests are what
  \<open>ValiUtils.generate_standard_request\<close> builds. The result is the list handed to
  \<open>run_time_series_validation\<close>, or \<open>None\<close> when nothing is run in this pass.
\<close>

definition main_pass ::
  "nat \<Rightarrow> string list \<Rightarrow> prediction_request list \<Rightarrow> int \<Rightarrow> client_request \<Rightarrow> base_request \<Rightarrow>
   vali_request list option" where
  "main_pass second all_files ready dice standard_client standard_training =
     (if second mod 5 = 0 then
        (let requests = [];
             requests =
               (if second mod 59 = 0 then
                  (if length all_files = 0 then requests @ [ClientRequest standard_client]
                   else requests)
                else requests);
             requests = requests @ map PredictionRequest ready;
             requests =
               (if length requests = 0 \<and> dice = 1
                then requests @ [TrainingRequest standard_training]
                else requests)
         in Some requests)
      else None)"


section \<open>Frame conditions\<close>

text \<open>
  A run is free of the ledger when replacing the persisted ledger beforehand changes
  nothing but the ledger afterwards: the run neither reads nor writes it. A run keeps a
  field of the world when the field is the same after the run as before.
\<close>

definition ledger_free :: "'a run \<Rightarrow> bool" where
  "ledger_free m =
     (\<forall>w L. m (w\<lparr>ledger := L\<rparr>) = (fst (m w), (snd (m w))\<lparr>ledger := L\<rparr>))"


section \<open>Concrete runs\<close>

text \<open>
  A market-data source that answers the first \<open>k\<close> calls with status 500 and every
  later call with status 200 and one row.
\<close>

definition flaky :: "nat \<Rightarrow> string list network" where
  "flaky k =
     (\<lambda>q n. if n < k then Inr \<lparr>status_code = 500, json_result_list = None\<rparr>
            else Inr \<lparr>status_code = 200, json_result_list = Some [''row'']\<rparr>)"

definition btc_query :: kline_query where
  "btc_query =
     \<lparr>symbol = ''BTCUSD'', interval = 5, start = Some 0, end_ms = Some 10, limit = 1000\<rparr>"

definition fresh_net :: net_state where
  "fresh_net = \<lparr>calls = 0, slept = []\<rparr>"

text \<open>
  A validator with twelve registered hotkeys, three axons of which the first answers
  with two predictions, the second not at all and the third with one prediction; scores
  are the sum of the predictions and are neither rescaled nor reweighted.
\<close>

definition demo_env :: env where
  "demo_env =
     \<lparr>hotkey_address = ''vali'',
      axons = [''m0'', ''m1'', ''m2''],
      hotkeys = [''vali'', ''m0'', ''m1'', ''m2'', ''m3'', ''m4'', ''m5'', ''m6'', ''m7'',
                 ''m8'', ''m9'', ''m10''],
      uids = [0, 1, 2, 3, 4, 5, 6, 7, 8, 9, 10, 11],
      netuid = 1,
      test_only_historical = 0,
      STANDARD_TF = 5,
      uuid4 = (\<lambda>n. ''uuid-'' @ map (\<lambda>k. CHR ''x'') [0..<n]),
      hash = (\<lambda>s. int (length s)),
      randomize_days = (\<lambda>historical n. (0, 100, [(0, 50), (50, 100)])),
      timestamp_to_millis = (\<lambda>t. t * 1000),
      minute_in_millis = (\<lambda>m. m * 60000),
      get_standardized_ds = [ [], [] ],
      fetch = (\<lambda>st ds ts_range n. Inr (map (\<lambda>col. col @ [40, 50]) ds)),
      scale_data_structure = (\<lambda>ds. Inr ([0, 0], [100, 100], [2, 2], ds)),
      scale_values = (\<lambda>col vmin vmax. Inr (vmin, vmax, map (\<lambda>x. x / 100) col)),
      query = (\<lambda>proto n. Inr [Some [41, 51], None, Some [42] ]),
      score_response = (\<lambda>preds truth. Inr (sum_list preds)),
      simple_scale_scores = Inr,
      weigh_miner_scores = Inr,
      persist_fault = (\<lambda>vm n. None),
      set_weights = (\<lambda>nu us ws n. None)\<rparr>"

definition demo_client_request :: client_request where
  "demo_client_request =
     \<lparr>stream_type = ''BTCUSD'', topic_id = 1, feature_ids = [1, 2], schema_id = 1,
      prediction_size = 2, client_uuid = None\<rparr>"

definition demo_training_request :: base_request where
  "demo_training_request =
     \<lparr>stream_type = ''BTCUSD'', topic_id = 1, feature_ids = [1, 2], schema_id = 1,
      prediction_size = 2\<rparr>"

definition world0 :: world where
  "world0 =
     \<lparr>clock = 0, sent = [], ledger = [], saved = [], disk = [], committed = [], logged = []\<rparr>"

text \<open>
  A later tick: the client and its stream are in the ledger, the record of miner
  \<open>m0\<close> is in the file \<open>f0\<close>, and its target window has elapsed.
\<close>

definition demo_df :: prediction_data_file where
  "demo_df =
     \<lparr>df_client_uuid = ''vali'', df_stream_type = ''BTCUSD'', df_stream_id = 10,
      df_topic_id = 1, df_request_uuid = ''uuid-'', df_miner_uid = ''m0'',
      df_start = 100000, df_end = 700000, df_vmins = [0, 0], df_vmaxs = [100, 100],
      df_decimal_places = [2, 2], df_predictions = [41, 51]\<rparr>"

definition world1 :: world where
  "world1 =
     \<lparr>clock = 7, sent = [],
      ledger = [(''vali'', [(10, \<lparr>cmw_topic_id = 1, miners = []\<rparr>)])],
      saved = [], disk = [''f0''], committed = [], logged = []\<rparr>"

definition demo_pr :: prediction_request where
  "demo_pr = \<lparr>df = demo_df, files = [''f0''], predictions = [(''m0'', [41, 51])]\<rparr>"

text \<open>
  A second record, of miner \<open>m1\<close> in the file \<open>f1\<close>, and the world in which
  both files exist.
\<close>

definition demo_pr2 :: prediction_request where
  "demo_pr2 =
     \<lparr>df = demo_df\<lparr>df_request_uuid := ''uuid-other'', df_miner_uid := ''m1'',
                      df_predictions := [43, 53]\<rparr>,
      files = [''f1''], predictions = [(''m1'', [43, 53])]\<rparr>"

definition world2 :: world where
  "world2 = world1\<lparr>disk := [''f0'', ''f1'']\<rparr>"

text \<open>A request one of whose files is not in the directory.\<close>

definition demo_pr_missing :: prediction_request where
  "demo_pr_missing = demo_pr\<lparr>files := [''f0'', ''gone'', ''f1'']\<rparr>"

text \<open>A validator whose miners all answer with two predictions but the last.\<close>

definition two_valid_env :: env where
  "two_valid_env =
     demo_env\<lparr>query := (\<lambda>proto n. Inr [Some [41, 51], Some [43, 53], Some [42] ])\<rparr>"

text \<open>A validator whose query always raises \<open>RuntimeError\<close>.\<close>

definition query_failing_env :: env where
  "query_failing_env = demo_env\<lparr>query := (\<lambda>proto n. Inl RuntimeError)\<rparr>"

text \<open>The same tick with eleven miners in the request.\<close>

definition eleven_predictions :: "(string \<times> column) list" where
  "eleven_predictions =
     [(''m0'', [1]), (''m1'', [2]), (''m2'', [3]), (''m3'', [4]), (''m4'', [5]),
      (''m5'', [6]), (''m6'', [7]), (''m7'', [8]), (''m8'', [9]), (''m9'', [10]),
      (''m10'', [11])]"

definition eleven_pr :: prediction_request where
  "eleven_pr = demo_pr\<lparr>predictions := eleven_predictions\<rparr>"

text \<open>A validator whose write of the ledger always fails.\<close>

definition persist_failing_env :: env where
  "persist_failing_env = demo_env\<lparr>persist_fault := (\<lambda>vm n. Some GenericException)\<rparr>"

text \<open>
  A market-data source that ends in \<open>ConnectionError\<close> on the call made at clock 8
  only, and one that does so on every call.
\<close>

definition fetch_failing_env :: env where
  "fetch_failing_env =
     demo_env\<lparr>fetch := (\<lambda>st ds ts_range n.
        if n = 8 then Inl ConnectionError else Inr (map (\<lambda>col. col @ [40, 50]) ds))\<rparr>"

definition fetch_down_env :: env where
  "fetch_down_env = demo_env\<lparr>fetch := (\<lambda>st ds ts_range n. Inl ConnectionError)\<rparr>"

text \<open>A market-data source that raises \<open>RuntimeError\<close> on the call made at clock 8 only.\<close>

definition fetch_runtime_env :: env where
  "fetch_runtime_env =
     demo_env\<lparr>fetch := (\<lambda>st ds ts_range n.
        if n = 8 then Inl RuntimeError else Inr (map (\<lambda>col. col @ [40, 50]) ds))\<rparr>"

section \<open>Unfolding the model\<close>

lemmas run_defs =
  ret_def raise_def lift_def and_then_def try_except_def try_except_else_def tick_def
  log_error_def index0_def dendrite_query_def get_vali_records_def
  set_vali_memory_and_bkp_def save_predictions_request_def os_remove_def

lemmas flow_defs =
  run_time_series_validation_def process_request_def process_prediction_def grade_def
  send_results_def score_and_weigh_def weigh_and_commit_def update_ledger_def subtensor_set_weights_def
  process_client_def process_training_def register_client_def make_pdf_def
  proper_response_def

lemmas scenario_defs =
  demo_env_def demo_pr_def demo_df_def world0_def world1_def demo_client_request_def
  eleven_pr_def eleven_predictions_def persist_failing_env_def fetch_failing_env_def
  fetch_down_env_def fetch_runtime_env_def demo_pr2_def world2_def demo_pr_missing_def
  two_valid_env_def query_failing_env_def

lemmas cmw_defs =
  new_miner_def add_score_def add_win_value_def add_win_def get_client_def get_stream_def
  get_miner_def new_stream_def put_stream_def is_RuntimeError_def is_Exception_def

section \<open>The retry of the market-data fetch\<close>

text \<open>
  Data comes back from \<open>get_data\<close> only when the very first call of
  \<open>requests.get\<close> succeeds: the value of a retry is never returned.
\<close>

lemma get_data_Some_first_attempt:
  assumes "get_data net q retries s = (Inr (Some rows), s')"
  shows "\<exists>response. net q (calls s) = Inr response \<and> status_code response = 200
           \<and> json_result_list response = Some rows"
  using assms
  by (subst (asm) get_data.simps)
     (auto simp: Let_def split: sum.splits if_splits prod.splits)

text \<open>
  Claim C2. When the first four attempts fail and the fifth succeeds, the caller should
  receive the fetched rows; and six failed attempts in a row should raise
  \<open>ConnectionError\<close>. The second half holds. The first does not: on four failures
  followed by a success the function makes five calls, sleeps 0, 1, 2 and 3 seconds, and
  returns \<open>None\<close>, because the recursive call at line 40 has no \<open>return\<close>.
\<close>

theorem get_data_retry_result_is_dropped:
  "get_data (flaky 4) btc_query 0 fresh_net
     = (Inr None, \<lparr>calls = 5, slept = [0, 1, 2, 3]\<rparr>)
   \<and> get_data (flaky 6) btc_query 0 fresh_net
     = (Inl ConnectionError, \<lparr>calls = 6, slept = [0, 1, 2, 3, 4]\<rparr>)"
  by (simp add: flaky_def btc_query_def fresh_net_def)

section \<open>The training workflow and the ledger\<close>

lemma ledger_free_ret: "ledger_free (ret x)"
  by (simp add: ledger_free_def ret_def)

lemma ledger_free_raise: "ledger_free (raise e)"
  by (simp add: ledger_free_def raise_def)

lemma ledger_free_lift: "ledger_free (lift r)"
  by (simp add: ledger_free_def lift_def)

lemma ledger_free_tick: "ledger_free tick"
  by (simp add: ledger_free_def tick_def)

lemma ledger_free_log_error: "ledger_free (log_error e)"
  by (simp add: ledger_free_def log_error_def)

lemma ledger_free_index0: "ledger_free (index0 xs)"
  by (cases xs) (simp_all add: index0_def ledger_free_ret ledger_free_raise)

lemma ledger_free_and_then:
  assumes "ledger_free m" and "\<And>x. ledger_free (f x)"
  shows "ledger_free (and_then m f)"
  unfolding ledger_free_def
proof (intro allI)
  fix w L
  obtain r w' where mw: "m w = (r, w')" by (cases "m w")
  from assms(1) mw have mL: "m (w\<lparr>ledger := L\<rparr>) = (r, w'\<lparr>ledger := L\<rparr>)"
    by (simp add: ledger_free_def)
  show "and_then m f (w\<lparr>ledger := L\<rparr>)
          = (fst (and_then m f w), (snd (and_then m f w))\<lparr>ledger := L\<rparr>)"
  proof (cases r)
    case (Inl e)
    with mw mL show ?thesis by (simp add: and_then_def)
  next
    case (Inr x)
    from assms(2)[of x]
    have "f x (w'\<lparr>ledger := L\<rparr>) = (fst (f x w'), (snd (f x w'))\<lparr>ledger := L\<rparr>)"
      by (simp add: ledger_free_def)
    with Inr mw mL show ?thesis by (simp add: and_then_def)
  qed
qed

lemma ledger_free_try_except:
  assumes "ledger_free m" and "\<And>e. ledger_free (h e)"
  shows "ledger_free (try_except m c h)"
  unfolding ledger_free_def
proof (intro allI)
  fix w L
  obtain r w' where mw: "m w = (r, w')" by (cases "m w")
  from assms(1) mw have mL: "m (w\<lparr>ledger := L\<rparr>) = (r, w'\<lparr>ledger := L\<rparr>)"
    by (simp add: ledger_free_def)
  show "try_except m c h (w\<lparr>ledger := L\<rparr>)
          = (fst (try_except m c h w), (snd (try_except m c h w))\<lparr>ledger := L\<rparr>)"
  proof (cases r)
    case (Inl e)
    from assms(2)[of e]
    have "h e (w'\<lparr>ledger := L\<rparr>) = (fst (h e w'), (snd (h e w'))\<lparr>ledger := L\<rparr>)"
      by (simp add: ledger_free_def)
    with Inl mw mL show ?thesis by (simp add: try_except_def)
  next
    case (Inr x)
    with mw mL show ?thesis by (simp add: try_except_def)
  qed
qed

lemma ledger_free_dendrite_query: "ledger_free (dendrite_query env proto)"
  unfolding dendrite_query_def
  by (rule ledger_free_and_then[OF ledger_free_tick]) (simp add: ledger_free_def)

lemma ledger_free_fetch_ranges: "ledger_free (fetch_ranges env st rs ds)"
  by (induction rs arbitrary: ds)
     (auto intro!: ledger_free_ret ledger_free_and_then ledger_free_tick ledger_free_lift)

lemma ledger_free_process_training: "ledger_free (process_training env r u)"
  unfolding process_training_def Let_def
  by (auto intro!: ledger_free_and_then ledger_free_tick ledger_free_lift
        ledger_free_fetch_ranges ledger_free_try_except ledger_free_dendrite_query
        ledger_free_index0 ledger_free_ret ledger_free_log_error
      split: prod.splits)

text \<open>
  Claim C9. Processing a TrainingRequest neither reads nor changes the persisted ledger:
  whatever ledger is put in place before the workflow, the outcome and every other part
  of the world are the same and that ledger is still there afterwards; in particular the
  ledger after the workflow is the ledger before it. This covers the runs that end in an
  exception as well.
\<close>

theorem training_request_leaves_ledger:
  "process_training env r u (w\<lparr>ledger := L\<rparr>)
     = (fst (process_training env r u w), (snd (process_training env r u w))\<lparr>ledger := L\<rparr>)
   \<and> ledger (snd (process_training env r u w)) = ledger w"
proof -
  have free: "ledger_free (process_training env r u)"
    by (rule ledger_free_process_training)
  have a: "process_training env r u (w\<lparr>ledger := L\<rparr>)
     = (fst (process_training env r u w), (snd (process_training env r u w))\<lparr>ledger := L\<rparr>)"
    using free by (simp add: ledger_free_def)
  from free have "process_training env r u (w\<lparr>ledger := ledger w\<rparr>)
     = (fst (process_training env r u w),
        (snd (process_training env r u w))\<lparr>ledger := ledger w\<rparr>)"
    unfolding ledger_free_def by blast
  then have "process_training env r u w
     = (fst (process_training env r u w),
        (snd (process_training env r u w))\<lparr>ledger := ledger w\<rparr>)"
    by simp
  then have "snd (process_training env r u w)
     = (snd (process_training env r u w))\<lparr>ledger := ledger w\<rparr>"
    by (metis snd_conv)
  then have "ledger (snd (process_training env r u w))
     = ledger ((snd (process_training env r u w))\<lparr>ledger := ledger w\<rparr>)"
    by simp
  then have b: "ledger (snd (process_training env r u w)) = ledger w"
    by simp
  from a b show ?thesis by simp
qed


section \<open>Collecting the responses of a ClientRequest\<close>

lemma proper_response_iff:
  "proper_response resp psize \<longleftrightarrow> (\<exists>v. resp = Some v \<and> int (length v) = psize)"
  by (cases resp) (simp_all add: proper_response_def)

text \<open>
  Given one axon per response, the loop raises nothing and writes exactly the valid
  responses, in order, each with the hotkey of its own axon, all under the one
  \<open>output_uuid\<close>.
\<close>

lemma store_predictions_writes:
  "i + length responses \<le> length (axons env) \<Longrightarrow>
   store_predictions env mk psize output_uuid i responses w =
     (Inr (), w\<lparr>saved :=
        fold (\<lambda>(j, resp_i). AList.update output_uuid (mk (axons env ! j) (the resp_i)))
          (filter (\<lambda>(j, resp_i). proper_response resp_i psize) (enumerate i responses))
          (saved w)\<rparr>)"
proof (induction responses arbitrary: i w)
  case Nil
  then show ?case by (simp add: ret_def)
next
  case (Cons resp_i rest)
  from Cons.prems have i: "i < length (axons env)"
    and rest: "Suc i + length rest \<le> length (axons env)"
    by simp_all
  show ?case
  proof (cases "proper_response resp_i psize")
    case True
    then obtain preds where p: "resp_i = Some preds"
      by (auto simp: proper_response_iff)
    with True i show ?thesis
      by (simp add: Cons.IH[OF rest] and_then_def save_predictions_request_def)
  next
    case False
    then show ?thesis
      by (simp add: Cons.IH[OF rest] and_then_def ret_def)
  qed
qed

lemma store_predictions_none_valid:
  "filter (\<lambda>r. proper_response r psize) responses = [] \<Longrightarrow>
   store_predictions env mk psize output_uuid i responses w = (Inr (), w)"
proof (induction responses arbitrary: i w)
  case Nil
  show ?case by (simp add: ret_def)
next
  case (Cons r rs)
  from Cons.prems have no: "\<not> proper_response r psize"
    and rest: "filter (\<lambda>r. proper_response r psize) rs = []"
    by (simp_all split: if_splits)
  show ?case using no Cons.IH[OF rest] by (simp add: and_then_def ret_def)
qed

text \<open>Writes under one key leave the last of them.\<close>

lemma writes_under_one_key:
  "xs \<noteq> [] \<Longrightarrow>
   fold (\<lambda>x. AList.update k (g x)) xs store = AList.update k (g (last xs)) store"
proof (induction xs arbitrary: store)
  case Nil
  then show ?case by simp
next
  case (Cons x xs)
  show ?case
  proof (cases "xs = []")
    case True
    then show ?thesis by simp
  next
    case False
    with Cons.IH[OF False, of "AList.update k (g x) store"] show ?thesis
      by simp
  qed
qed

text \<open>
  However many responses are valid, the loop leaves one record under \<open>output_uuid\<close>:
  that of the last valid responder.
\<close>

lemma store_predictions_keeps_last_valid:
  assumes "i + length responses \<le> length (axons env)"
    and "filter (\<lambda>(j, resp_i). proper_response resp_i psize) (enumerate i responses) \<noteq> []"
  shows "store_predictions env mk psize output_uuid i responses w =
     (Inr (), w\<lparr>saved :=
        AList.update output_uuid
          (case last (filter (\<lambda>(j, resp_i). proper_response resp_i psize)
                        (enumerate i responses)) of
             (j, resp_i) \<Rightarrow> mk (axons env ! j) (the resp_i))
          (saved w)\<rparr>)"
proof -
  let ?g = "\<lambda>(j, resp_i). mk (axons env ! j) (the resp_i)"
  let ?xs = "filter (\<lambda>(j, resp_i). proper_response resp_i psize) (enumerate i responses)"
  have eq: "(\<lambda>(j, resp_i). AList.update output_uuid (mk (axons env ! j) (the resp_i)))
              = (\<lambda>x. AList.update output_uuid (?g x))"
    by (rule ext) (simp add: case_prod_beta)
  have "fold (\<lambda>(j, resp_i). AList.update output_uuid (mk (axons env ! j) (the resp_i)))
          ?xs (saved w)
        = AList.update output_uuid (?g (last ?xs)) (saved w)"
    unfolding eq by (rule writes_under_one_key[OF assms(2)])
  with store_predictions_writes[OF assms(1), of mk psize output_uuid w]
  show ?thesis by simp
qed


section \<open>The scheduler\<close>

text \<open>
  Claim C7. In a pass that runs (the second is a multiple of 5) with exactly one
  completed record pending, whose file is therefore in the predictions directory, the
  scheduler hands on exactly one PredictionRequest and neither a ClientRequest nor a
  TrainingRequest, whatever the dice.
\<close>

theorem scheduler_one_pending:
  assumes "second mod 5 = 0" and "all_files \<noteq> []"
  shows "main_pass second all_files [r] dice standard_client standard_training
           = Some [PredictionRequest r]"
  using assms by (simp add: main_pass_def Let_def)

theorem scheduler_one_pending_witness:
  "(0 :: nat) mod 5 = 0 \<and> [''f0''] \<noteq> []
   \<and> main_pass 0 [''f0''] [demo_pr] 1 demo_client_request demo_training_request
       = Some [PredictionRequest demo_pr]"
  using scheduler_one_pending[of 0 "[''f0'']" demo_pr 1 demo_client_request
      demo_training_request]
  by simp

text \<open>
  Claim C8, as stated: in every pass with no completed record and no prediction file
  the scheduler emits one ClientRequest. It does not at second 5: the listing of the
  directory is only consulted under \<open>current_time.second % 59 == 0\<close>.
\<close>

theorem idle_pass_without_client_request:
  "main_pass 5 [] [] 0 demo_client_request demo_training_request = Some []"
  by (simp add: main_pass_def Let_def)

text \<open>
  Claim C8, amended. In a pass whose second is a multiple of 5 and of 59 (second 0 of a
  minute) and in which no prediction file exists, the scheduler emits one ClientRequest,
  first in the batch and followed by the PredictionRequests that are ready, if any.
\<close>

theorem idle_pass_on_the_minute_emits_client_request:
  assumes "second mod 5 = 0" and "second mod 59 = 0"
  shows "main_pass second [] ready dice standard_client standard_training
           = Some (ClientRequest standard_client # map PredictionRequest ready)"
  using assms by (simp add: main_pass_def Let_def)

theorem idle_pass_on_the_minute_emits_client_request_witness:
  "(0 :: nat) mod 5 = 0 \<and> (0 :: nat) mod 59 = 0
   \<and> main_pass 0 [] [] 0 demo_client_request demo_training_request
       = Some [ClientRequest demo_client_request]"
  using idle_pass_on_the_minute_emits_client_request[of 0 "[]" 0 demo_client_request
      demo_training_request]
  by simp


section \<open>Grading more than ten miners\<close>

lemma add_results_errors:
  "add_results scaled d strm = Inl e \<Longrightarrow> e = AttributeError \<or> e = KeyError"
  by (induction scaled d strm rule: add_results.induct)
     (auto simp: Let_def split: option.splits if_splits)

lemma add_results_keys:
  "add_results scaled d strm = Inr strm' \<Longrightarrow> fst ` set scaled \<subseteq> fst ` set d"
proof (induction scaled d strm rule: add_results.induct)
  case (1 d strm)
  then show ?case by simp
next
  case (2 miner_uid scaled_score rest d strm)
  from "2.prems" obtain s where s: "strm = Some s"
    by (cases strm) simp_all
  from "2.prems" s obtain win_value where wv: "map_of d miner_uid = Some win_value"
    by (cases "map_of d miner_uid") (simp_all add: Let_def)
  from wv have here: "miner_uid \<in> fst ` set d"
    by (metis map_of_eq_None_iff option.distinct(1))
  from "2.prems" s wv have "fst ` set rest \<subseteq> fst ` set d"
    by (intro "2.IH"[OF s refl refl wv refl]) (simp add: Let_def)
  with here show ?case by simp
qed

lemma dict_keys:
  "fst ` set (fold (\<lambda>score. AList.update (fst score) (snd score)) xs acc)
     = fst ` set acc \<union> fst ` set xs"
  by (induction xs arbitrary: acc) (auto simp: dom_update)

lemma ten_keys:
  "card (fst ` set (fold (\<lambda>score. AList.update (fst score) (snd score)) (take 10 xs) []))
     \<le> 10"
proof -
  have "card (fst ` set (take 10 xs)) \<le> card (set (take 10 xs))"
    by (rule card_image_le) simp
  also have "\<dots> \<le> length (take 10 xs)" by (rule card_length)
  also have "\<dots> \<le> 10" by simp
  finally show ?thesis by (simp add: dict_keys)
qed

text \<open>
  Whatever the scoring collaborators compute: as soon as more than ten miners have a
  scaled score, the loop of lines 366-378 raises, the exception is logged, and the
  ledger is not written.
\<close>

lemma more_than_ten_miners_are_not_recorded:
  assumes "10 < card (fst ` set scaled_scores)"
  shows "\<exists>e. update_ledger env vm request_df strm scaled_scores
           (fold (\<lambda>score. AList.update (fst score) (snd score)) (take 10 weighed_scores) []) w
         = (Inr (), w\<lparr>logged := logged w @ [e]\<rparr>)"
proof -
  let ?d = "fold (\<lambda>score. AList.update (fst score) (snd score)) (take 10 weighed_scores) []"
  have "\<exists>e. add_results scaled_scores ?d strm = Inl e"
  proof (cases "add_results scaled_scores ?d strm")
    case (Inl e)
    then show ?thesis by blast
  next
    case (Inr strm')
    then have "fst ` set scaled_scores \<subseteq> fst ` set ?d" by (rule add_results_keys)
    then have "card (fst ` set scaled_scores) \<le> card (fst ` set ?d)"
      by (intro card_mono) simp_all
    with ten_keys[of weighed_scores] assms show ?thesis by simp
  qed
  then obtain e where e: "add_results scaled_scores ?d strm = Inl e" by blast
  then have "is_Exception e"
    using add_results_errors[OF e] by (auto simp: is_Exception_def)
  with e show ?thesis
    by (auto simp: update_ledger_def try_except_def and_then_def lift_def log_error_def)
qed

text \<open>
  Claim C1. Every miner with a scaled score should have it appended to its score
  history in the ledger, in the ten best or not, also when more than ten miners are
  scored. With eleven miners the code does not do so: the eleventh miner is not a key of
  \<open>weighed_winning_scores_dict\<close>, the subscript at line 375 raises \<open>KeyError\<close>
  inside the \<open>try\<close> of line 364, the ledger is never written, and no miner has a
  score recorded, while the weights of the ten best are committed and the file is
  removed.
\<close>

theorem eleven_miners_leave_ledger_unwritten:
  "run_time_series_validation demo_env [PredictionRequest eleven_pr] world1
     = (Inr (),
        \<lparr>clock = 11, sent = [LiveBackward ''uuid-xxxxxxx'' 10 [2 / 5, 1 / 2] 1],
         ledger = [(''vali'', [(10, \<lparr>cmw_topic_id = 1, miners = []\<rparr>)])],
         saved = [], disk = [],
         committed =
           [(1, [11, 10, 9, 8, 7, 6, 5, 4, 3, 2], [11, 10, 9, 8, 7, 6, 5, 4, 3, 2])],
         logged = [KeyError]\<rparr>)"
  by (simp add: run_defs flow_defs cmw_defs scenario_defs Let_def upt_conv_Cons)

section \<open>The request uuid of the backward message\<close>

lemma weigh_and_commit_stored_uuid:
  "weigh_and_commit env (r\<lparr>df := (df r)\<lparr>df_request_uuid := x\<rparr>\<rparr>) vm
     = weigh_and_commit env r vm"
  by (rule ext)
     (simp add: weigh_and_commit_def update_ledger_def Let_def cong: option.case_cong)

text \<open>
  The \<open>request_uuid\<close> stored in the record is never read when the record is graded.
\<close>

lemma stored_request_uuid_is_not_read:
  "process_prediction env (r\<lparr>df := (df r)\<lparr>df_request_uuid := x\<rparr>\<rparr>) u
     = process_prediction env r u"
  by (simp add: process_prediction_def grade_def send_results_def score_and_weigh_def
      weigh_and_commit_stored_uuid Let_def)

text \<open>
  Claim C5. The \<open>LiveBackward\<close> sent when a PredictionRequest is graded should carry
  the \<open>request_uuid\<close> of the \<open>LiveForward\<close> that produced the record. It does not:
  the ClientRequest of the first tick goes out under \<open>uuid-\<close> and its record stores
  that uuid, but the grading of the record in a later tick sends the uuid drawn at line
  119 for that iteration of the loop, \<open>uuid-xxxxxxx\<close>.
\<close>

theorem live_backward_carries_fresh_uuid:
  "sent (snd (run_time_series_validation demo_env [ClientRequest demo_client_request] world0))
     = [LiveForward ''uuid-'' 10 [ [40, 50, 40, 50], [40, 50, 40, 50] ] 1 [1, 2] 1 2]
   \<and> saved (snd (run_time_series_validation demo_env [ClientRequest demo_client_request]
              world0))
     = [(''uuid-xxxxxx'', demo_df)]
   \<and> df_request_uuid demo_df = ''uuid-''
   \<and> sent (snd (run_time_series_validation demo_env [PredictionRequest demo_pr] world1))
     = [LiveBackward ''uuid-xxxxxxx'' 10 [2 / 5, 1 / 2] 1]"
  by (simp add: run_defs flow_defs cmw_defs scenario_defs Let_def upt_conv_Cons)


section \<open>When the files of a PredictionRequest are removed\<close>





















text \<open>The two cases are all there is.\<close>

lemma all_present_or_first_missing:
  "(distinct fs \<and> set fs \<subseteq> D)
   \<or> (\<exists>pre f post. fs = pre @ f # post \<and> distinct pre \<and> set pre \<subseteq> D
         \<and> (f \<in> set pre \<or> f \<notin> D))"
proof (induction fs rule: rev_induct)
  case Nil
  then show ?case by simp
next
  case (snoc x xs)
  from snoc.IH consider
    (good) "distinct xs" "set xs \<subseteq> D"
    | (bad) pre f post where "xs = pre @ f # post" "distinct pre" "set pre \<subseteq> D"
        "f \<in> set pre \<or> f \<notin> D"
    by blast
  then show ?case
  proof cases
    case good
    show ?thesis
    proof (cases "x \<in> set xs \<or> x \<notin> D")
      case True
      with good have "xs @ [x] = xs @ x # [] \<and> distinct xs \<and> set xs \<subseteq> D
          \<and> (x \<in> set xs \<or> x \<notin> D)"
        by simp
      then show ?thesis by blast
    next
      case False
      with good show ?thesis by simp
    qed
  next
    case bad
    then have "xs @ [x] = pre @ f # (post @ [x]) \<and> distinct pre \<and> set pre \<subseteq> D
        \<and> (f \<in> set pre \<or> f \<notin> D)"
      by simp
    then show ?thesis by blast
  qed
qed






section \<open>A fetch that fails for good\<close>

lemma fetch_ranges_first_fails:
  "fetch env st ds ts_range (clock w) = Inl e \<Longrightarrow>
   fetch_ranges env st (ts_range # rest) ds w = (Inl e, w\<lparr>clock := Suc (clock w)\<rparr>)"
  by (simp add: and_then_def tick_def lift_def)

text \<open>
  The fetches of a training or client request are outside any \<open>try\<close> (lines 129-132
  and 216-219): whatever the first of them raises leaves the workflow.
\<close>

lemma process_training_first_fetch_fails:
  assumes "randomize_days env True (clock w) = (start_dt, end_dt, ts_range # ts_ranges)"
    and "fetch env (stream_type r) (get_standardized_ds env) ts_range (Suc (clock w)) = Inl e"
  shows "process_training env r u w = (Inl e, w\<lparr>clock := clock w + 2\<rparr>)"
proof -
  let ?w = "w\<lparr>clock := Suc (clock w)\<rparr>"
  from assms(2)
  have "fetch env (stream_type r) (get_standardized_ds env) ts_range (clock ?w) = Inl e"
    by simp
  from fetch_ranges_first_fails[OF this, of ts_ranges] assms(1) show ?thesis
    by (simp add: process_training_def and_then_def tick_def Let_def)
qed

lemma process_client_first_fetch_fails:
  assumes "randomize_days env (test_only_historical env = 1) (clock w)
             = (start_dt, end_dt, ts_range # ts_ranges)"
    and "fetch env (stream_type r) (get_standardized_ds env) ts_range (Suc (clock w)) = Inl e"
  shows "process_client env r u w = (Inl e, w\<lparr>clock := clock w + 2\<rparr>)"
proof -
  let ?w = "w\<lparr>clock := Suc (clock w)\<rparr>"
  from assms(2)
  have "fetch env (stream_type r) (get_standardized_ds env) ts_range (clock ?w) = Inl e"
    by simp
  from fetch_ranges_first_fails[OF this, of ts_ranges] assms(1) show ?thesis
    by (simp add: process_client_def and_then_def tick_def Let_def)
qed

text \<open>
  The fetch of a prediction request is inside the \<open>try\<close> of line 306, whose handler
  is \<open>except RuntimeError\<close>: a \<open>RuntimeError\<close> of the fetch is logged and the
  workflow ends normally, any other exception leaves the workflow.
\<close>

lemma process_prediction_fetch_fails:
  assumes "fetch env (df_stream_type (df r)) (get_standardized_ds env)
             (df_start (df r), df_end (df r)) (clock w) = Inl e"
  shows "process_prediction env r u w =
     (if is_RuntimeError e
      then (Inr (), w\<lparr>clock := clock w + 1, logged := logged w @ [e]\<rparr>)
      else (Inl e, w\<lparr>clock := clock w + 1\<rparr>))"
  using assms
  by (simp add: process_prediction_def try_except_else_def grade_def send_results_def
      and_then_def get_vali_records_def tick_def lift_def log_error_def Let_def)

text \<open>An exception that leaves a workflow leaves the loop: the rest of the batch is not run.\<close>

lemma process_requests_stops:
  assumes "process_request env vali_request (uuid4 env (clock w)) (w\<lparr>clock := Suc (clock w)\<rparr>)
             = (Inl e, w')"
  shows "process_requests env (vali_request # rest) w = (Inl e, w')"
  using assms by (simp add: and_then_def tick_def Let_def)

text \<open>
  Claim C4. A fatal fetch failure inside one request's workflow should abort only that
  workflow, the requests after it in the batch still being executed. The code does
  not do so. At second 5 with two completed records the scheduler hands over two
  PredictionRequests. When the fetch of the first ends in \<open>ConnectionError\<close>, the
  function raises it after the first request and the second is not touched: nothing is
  sent, graded, committed or removed for it, although run by itself from that point it
  is graded in full. Had the same fetch raised \<open>RuntimeError\<close>, the handler of line
  402 would have logged it and the second request would have been graded.
\<close>

theorem connection_error_stops_following_request:
  "main_pass 5 [''f0'', ''f1''] [demo_pr, demo_pr2] 0 demo_client_request
       demo_training_request
     = Some [PredictionRequest demo_pr, PredictionRequest demo_pr2]
   \<and> run_time_series_validation fetch_failing_env
       [PredictionRequest demo_pr, PredictionRequest demo_pr2] world2
     = (Inl ConnectionError, world2\<lparr>clock := 9\<rparr>)
   \<and> run_time_series_validation fetch_failing_env
       [PredictionRequest demo_pr2] (world2\<lparr>clock := 9\<rparr>)
     = (Inr (),
        \<lparr>clock = 14, sent = [LiveBackward ''uuid-xxxxxxxxx'' 10 [2 / 5, 1 / 2] 1],
         ledger =
           [(''vali'',
             [(10, \<lparr>cmw_topic_id = 1,
                    miners = [(''m1'', \<lparr>miner_id = ''m1'', win_count = 1,
                                        win_value_total = 96, score_history = [96]\<rparr>)]\<rparr>)])],
         saved = [], disk = [''f0''], committed = [(1, [2], [96])], logged = []\<rparr>)
   \<and> run_time_series_validation fetch_runtime_env
       [PredictionRequest demo_pr, PredictionRequest demo_pr2] world2
     = (Inr (),
        \<lparr>clock = 14, sent = [LiveBackward ''uuid-xxxxxxxxx'' 10 [2 / 5, 1 / 2] 1],
         ledger =
           [(''vali'',
             [(10, \<lparr>cmw_topic_id = 1,
                    miners = [(''m1'', \<lparr>miner_id = ''m1'', win_count = 1,
                                        win_value_total = 96, score_history = [96]\<rparr>)]\<rparr>)])],
         saved = [], disk = [''f0''], committed = [(1, [2], [96])],
         logged = [RuntimeError]\<rparr>)"
  by (simp add: main_pass_def run_defs flow_defs cmw_defs scenario_defs Let_def upt_conv_Cons)

section \<open>What the predictions are scored against\<close>

lemma update_appends: "k \<notin> fst ` set acc \<Longrightarrow> AList.update k v acc = acc @ [(k, v)]"
  by (induction acc) auto

lemma score_predictions_against_truth:
  "score_predictions env ps (truth # others) acc w = (Inr scores, w') \<Longrightarrow>
   distinct (map fst ps) \<Longrightarrow> fst ` set ps \<inter> fst ` set acc = {} \<Longrightarrow>
   \<exists>new. scores = acc @ new \<and>
     list_all2 (\<lambda>(m, p) (m', s). m' = m \<and> score_response env p truth = Inr s) ps new"
proof (induction ps arbitrary: acc)
  case Nil
  then show ?case by (simp add: ret_def)
next
  case (Cons mp ps)
  obtain m p where mp: "mp = (m, p)" by (cases mp)
  from Cons.prems(1) mp obtain s where s: "score_response env p truth = Inr s"
    and rest: "score_predictions env ps (truth # others) (AList.update m s acc) w
                 = (Inr scores, w')"
    by (cases "score_response env p truth")
       (auto simp: and_then_def index0_def ret_def lift_def)
  from Cons.prems(3) mp have "m \<notin> fst ` set acc" by auto
  then have upd: "AList.update m s acc = acc @ [(m, s)]" by (rule update_appends)
  from Cons.prems(2) mp have d: "distinct (map fst ps)" and m: "m \<notin> fst ` set ps"
    by auto
  from Cons.prems(3) mp m
  have disj: "fst ` set ps \<inter> fst ` set (AList.update m s acc) = {}"
    by (auto simp: upd)
  from Cons.IH[OF rest d disj] obtain new where
    new: "scores = AList.update m s acc @ new"
    and all: "list_all2 (\<lambda>(m, p) (m', s). m' = m \<and> score_response env p truth = Inr s)
                ps new"
    by blast
  from new upd have "scores = acc @ ((m, s) # new)" by simp
  moreover from all s mp
  have "list_all2 (\<lambda>(m, p) (m', s). m' = m \<and> score_response env p truth = Inr s)
          (mp # ps) ((m, s) # new)"
    by simp
  ultimately show ?case by blast
qed

lemma grade_sends_scaled_and_scores_raw:
  assumes "fetch env (df_stream_type (df r)) (get_standardized_ds env)
             (df_start (df r), df_end (df r)) (clock w) = Inr (truth # others)"
    and "df_vmins (df r) = vmin # vmins" and "df_vmaxs (df r) = vmax # vmaxs"
    and "scale_values env truth vmin vmax = Inr (lo, hi, scaled)"
    and "query env (LiveBackward u (hash env (df_stream_type (df r) @ hotkey_address env))
            scaled (df_topic_id (df r))) (Suc (clock w)) = Inr responses"
  shows "grade env r u w =
     and_then (score_predictions env (predictions r) (truth # others) [])
       (weigh_and_commit env r (ledger w))
       (w\<lparr>clock := clock w + 2,
          sent := sent w @
            [LiveBackward u (hash env (df_stream_type (df r) @ hotkey_address env))
               scaled (df_topic_id (df r))]\<rparr>)"
  using assms
  by (simp add: grade_def send_results_def score_and_weigh_def and_then_def
      get_vali_records_def tick_def lift_def index0_def ret_def dendrite_query_def Let_def)

lemma convert_uids_scale_values:
  "convert_uids (env\<lparr>scale_values := sv\<rparr>) xs = convert_uids env xs"
  by (induction xs) (simp_all cong: option.case_cong if_cong sum.case_cong)

lemma score_predictions_scale_values:
  "score_predictions (env\<lparr>scale_values := sv\<rparr>) ps ds acc = score_predictions env ps ds acc"
  by (induction env ps ds acc rule: score_predictions.induct) simp_all

lemma weigh_and_commit_scale_values:
  "weigh_and_commit (env\<lparr>scale_values := sv\<rparr>) r vm scores = weigh_and_commit env r vm scores"
  by (simp add: weigh_and_commit_def update_ledger_def set_vali_memory_and_bkp_def
      subtensor_set_weights_def convert_uids_scale_values Let_def
      cong: option.case_cong)

text \<open>
  Claim C10. When a PredictionRequest is graded and the fetch, the rescaling and the
  query succeed, the \<open>LiveBackward\<close> sent to the miners carries the first column
  rescaled with the bounds of the record, and what follows is the scoring of the
  request's predictions against the data structure as fetched, then the weighing of
  those scores. Every score that the scoring returns is the value of
  \<open>score_response\<close> on that miner's predictions and the raw first column. Neither
  the scoring nor the weighing depends on the rescaling function.
\<close>

theorem grading_scores_against_raw_results:
  assumes "fetch env (df_stream_type (df r)) (get_standardized_ds env)
             (df_start (df r), df_end (df r)) (clock w) = Inr (truth # others)"
    and "df_vmins (df r) = vmin # vmins" and "df_vmaxs (df r) = vmax # vmaxs"
    and "scale_values env truth vmin vmax = Inr (lo, hi, scaled)"
    and "query env (LiveBackward u (hash env (df_stream_type (df r) @ hotkey_address env))
            scaled (df_topic_id (df r))) (Suc (clock w)) = Inr responses"
  shows "grade env r u w =
       and_then (score_predictions env (predictions r) (truth # others) [])
         (weigh_and_commit env r (ledger w))
         (w\<lparr>clock := clock w + 2,
            sent := sent w @
              [LiveBackward u (hash env (df_stream_type (df r) @ hotkey_address env))
                 scaled (df_topic_id (df r))]\<rparr>)
     \<and> (\<forall>w1 scores w2.
          score_predictions env (predictions r) (truth # others) [] w1 = (Inr scores, w2) \<longrightarrow>
          distinct (map fst (predictions r)) \<longrightarrow>
          list_all2 (\<lambda>(m, p) (m', s). m' = m \<and> score_response env p truth = Inr s)
            (predictions r) scores)
     \<and> (\<forall>sv ps ds acc.
          score_predictions (env\<lparr>scale_values := sv\<rparr>) ps ds acc
            = score_predictions env ps ds acc)
     \<and> (\<forall>sv vm scores.
          weigh_and_commit (env\<lparr>scale_values := sv\<rparr>) r vm scores
            = weigh_and_commit env r vm scores)"
proof (intro conjI allI impI)
  show "grade env r u w =
       and_then (score_predictions env (predictions r) (truth # others) [])
         (weigh_and_commit env r (ledger w))
         (w\<lparr>clock := clock w + 2,
            sent := sent w @
              [LiveBackward u (hash env (df_stream_type (df r) @ hotkey_address env))
                 scaled (df_topic_id (df r))]\<rparr>)"
    using assms by (rule grade_sends_scaled_and_scores_raw)
next
  fix w1 scores w2
  assume run: "score_predictions env (predictions r) (truth # others) [] w1 = (Inr scores, w2)"
    and d: "distinct (map fst (predictions r))"
  from score_predictions_against_truth[OF run d]
  show "list_all2 (\<lambda>(m, p) (m', s). m' = m \<and> score_response env p truth = Inr s)
          (predictions r) scores"
    by simp
next
  fix sv ps ds acc
  show "score_predictions (env\<lparr>scale_values := sv\<rparr>) ps ds acc
          = score_predictions env ps ds acc"
    by (rule score_predictions_scale_values)
next
  fix sv vm scores
  show "weigh_and_commit (env\<lparr>scale_values := sv\<rparr>) r vm scores
          = weigh_and_commit env r vm scores"
    by (rule weigh_and_commit_scale_values)
qed

theorem grading_scores_against_raw_results_witness:
  "fetch demo_env (df_stream_type (df demo_pr)) (get_standardized_ds demo_env)
       (df_start (df demo_pr), df_end (df demo_pr)) (clock world1) = Inr ([40, 50] # [ [40, 50] ])
   \<and> df_vmins (df demo_pr) = 0 # [0]
   \<and> df_vmaxs (df demo_pr) = 100 # [100]
   \<and> scale_values demo_env [40, 50] 0 100 = Inr (0, 100, [2 / 5, 1 / 2])
   \<and> query demo_env
        (LiveBackward ''u'' (hash demo_env (df_stream_type (df demo_pr) @ hotkey_address demo_env))
           [2 / 5, 1 / 2] (df_topic_id (df demo_pr))) (Suc (clock world1))
       = Inr [Some [41, 51], None, Some [42] ]
   \<and> score_predictions demo_env (predictions demo_pr) ([40, 50] # [ [40, 50] ]) [] world1
       = (Inr [(''m0'', 92)], world1)
   \<and> distinct (map fst (predictions demo_pr))
   \<and> list_all2 (\<lambda>(m, p) (m', s). m' = m \<and> score_response demo_env p [40, 50] = Inr s)
        (predictions demo_pr) [(''m0'', 92)]
   \<and> sent (snd (grade demo_env demo_pr ''u'' world1)) = [LiveBackward ''u'' 10 [2 / 5, 1 / 2] 1]"
proof -
  have h1: "fetch demo_env (df_stream_type (df demo_pr)) (get_standardized_ds demo_env)
       (df_start (df demo_pr), df_end (df demo_pr)) (clock world1) = Inr ([40, 50] # [ [40, 50] ])"
    by (simp add: scenario_defs)
  have h2: "df_vmins (df demo_pr) = 0 # [0]" and h3: "df_vmaxs (df demo_pr) = 100 # [100]"
    by (simp_all add: scenario_defs)
  have h4: "scale_values demo_env [40, 50] 0 100 = Inr (0, 100, [2 / 5, 1 / 2])"
    by (simp add: scenario_defs)
  have h5: "query demo_env
        (LiveBackward ''u'' (hash demo_env (df_stream_type (df demo_pr) @ hotkey_address demo_env))
           [2 / 5, 1 / 2] (df_topic_id (df demo_pr))) (Suc (clock world1))
       = Inr [Some [41, 51], None, Some [42] ]"
    by (simp add: scenario_defs)
  have s: "score_predictions demo_env (predictions demo_pr) ([40, 50] # [ [40, 50] ]) [] world1
       = (Inr [(''m0'', 92)], world1)"
    by (simp add: run_defs scenario_defs)
  have d: "distinct (map fst (predictions demo_pr))"
    by (simp add: scenario_defs)
  note t = grading_scores_against_raw_results[OF h1 h2 h3 h4 h5]
  from t s d
  have l: "list_all2 (\<lambda>(m, p) (m', s). m' = m \<and> score_response demo_env p [40, 50] = Inr s)
        (predictions demo_pr) [(''m0'', 92)]"
    by blast
  from t have "grade demo_env demo_pr ''u'' world1 =
       and_then (score_predictions demo_env (predictions demo_pr) ([40, 50] # [ [40, 50] ]) [])
         (weigh_and_commit demo_env demo_pr (ledger world1))
         (world1\<lparr>clock := clock world1 + 2,
            sent := sent world1 @
              [LiveBackward ''u''
                 (hash demo_env (df_stream_type (df demo_pr) @ hotkey_address demo_env))
                 [2 / 5, 1 / 2] (df_topic_id (df demo_pr))]\<rparr>)"
    by blast
  then have g: "sent (snd (grade demo_env demo_pr ''u'' world1))
       = [LiveBackward ''u'' 10 [2 / 5, 1 / 2] 1]"
    by (simp add: run_defs flow_defs cmw_defs scenario_defs Let_def)
  from h1 h2 h3 h4 h5 s d l g show ?thesis by blast
qed

end
